theory Spec2Isabelle
  imports Complex_Main "HOL-Library.Stream" "HOL-Library.Log_Nat" "HOL-Library.AList"
begin

section \<open>Numbers of the host language\<close>

text \<open>
  The program is TypeScript: every \<open>number\<close> is an IEEE 754 binary64 value.  The
  seeded generator only ever holds integer values, so its arithmetic is modelled on
  \<open>int\<close> with the rounding of binary64 written out: a product or sum whose exact
  value needs more than 53 significant bits is rounded to the nearest representable value,
  ties to the even significand (\<open>toDouble\<close>).  The remainder operator \<open>%\<close> is exact
  and takes the sign of the dividend (\<open>js_rem\<close>).
\<close>

definition toDouble :: "int \<Rightarrow> int" where
  "toDouble x =
     (let e = bitlen \<bar>x\<bar> - 53 in
      if e \<le> 0 then x
      else
        let p = 2 ^ nat e;
            q = \<bar>x\<bar> div p;
            r = \<bar>x\<bar> mod p;
            q' = (if p < 2 * r \<or> (2 * r = p \<and> odd q) then q + 1 else q)
        in sgn x * (q' * p))"

definition js_rem :: "int \<Rightarrow> int \<Rightarrow> int" where
  "js_rem x y = sgn x * (\<bar>x\<bar> mod \<bar>y\<bar>)"

section \<open>Seeded random number generator (utils/random)\<close>

text \<open>
  \<open>createSeededRandom\<close> returns a closure over one private register \<open>state\<close>.  A
  closure \<open>() => number\<close> with private state is modelled by the stream of the values
  its successive calls return; calling it is taking the head and keeping the tail.
  \<open>lcg_init\<close> is the statement \<open>let state = seed % m\<close>, \<open>lcg_step\<close> the statement
  \<open>state = (a * state + c) % m\<close>, and the value returned is \<open>state / m\<close>, which is
  exact because \<open>m\<close> is a power of two.
\<close>

definition lcg_a :: int where "lcg_a = 1103515245"
definition lcg_c :: int where "lcg_c = 12345"
definition lcg_m :: int where "lcg_m = 2 ^ 31"

definition lcg_init :: "int \<Rightarrow> int" where
  "lcg_init seed = js_rem seed lcg_m"

definition lcg_step :: "int \<Rightarrow> int" where
  "lcg_step state = js_rem (toDouble (toDouble (lcg_a * state) + lcg_c)) lcg_m"

definition lcg_out :: "int \<Rightarrow> real" where
  "lcg_out state = real_of_int state / real_of_int lcg_m"

type_synonym prng = "real stream"

definition createSeededRandom :: "int \<Rightarrow> prng" where
  "createSeededRandom seed = smap lcg_out (siterate lcg_step (lcg_step (lcg_init seed)))"








text \<open>
  C7 (PRNG contract).  The claim: for every integer seed, negative ones included, the
  register starts at \<open>seed mod 2^31\<close>, each call sets it to
  \<open>(1103515245 * state + 12345) mod 2^31\<close>, and every value returned lies in \<open>[0,1)\<close>.
  The code evaluated at two seeds: with seed \<open>-1\<close> the remainder keeps the sign of the
  seed, the register stays negative and the first value returned is negative; with seed
  \<open>12345\<close> the product of the second call needs 61 bits, is rounded to a multiple of
  \<open>256\<close>, and the register becomes \<open>654583808\<close> where the recurrence of the claim
  gives \<open>654583775\<close>.
\<close>

theorem createSeededRandom_breaks_contract:
  "lcg_init (- 1) = - 1
   \<and> shd (createSeededRandom (- 1)) = - 1103502900 / 2147483648
   \<and> shd (createSeededRandom (- 1)) < 0
   \<and> lcg_step (lcg_init 12345) = 1406932606
   \<and> lcg_step (lcg_step (lcg_init 12345)) = 654583808
   \<and> (lcg_a * 1406932606 + lcg_c) mod lcg_m = 654583775"
proof -
  have neg: "lcg_step (lcg_init (- 1)) = - 1103502900"
    by code_simp
  have "lcg_init (- 1) = - 1"
    by code_simp
  moreover have "shd (createSeededRandom (- 1)) = - 1103502900 / 2147483648"
    by (simp add: createSeededRandom_def neg lcg_out_def lcg_m_def)
  moreover have "lcg_step (lcg_init 12345) = 1406932606"
    by code_simp
  moreover have "lcg_step (lcg_step (lcg_init 12345)) = 654583808"
    by code_simp
  moreover have "(lcg_a * 1406932606 + lcg_c) mod lcg_m = 654583775"
    by code_simp
  ultimately show ?thesis
    by simp
qed

section \<open>Attribute extractor (extractor.ts)\<close>

subsection \<open>Input contract: parsed rule blocks\<close>

text \<open>
  The rule records come from the external rule compiler.  Of each record the extractor
  reads the discriminant \<open>ruleType\<close>, the \<open>attributeList\<close> of a fetch statement and
  the \<open>sourceRuleblock\<close> and \<open>sourceVariable\<close> of a bind statement; the other fields
  are carried along as the tests of the repository write them.  \<open>OTHER_STATEMENT\<close>
  stands for a record whose discriminant is none of the three.
\<close>

datatype rule =
    FETCH_STATEMENT (assignedVariable: string) (table: string) (attributeList: "string list")
      (property: string) (functionName: string)
  | BIND_STATEMENT (assignedVariable: string) (sourceRuleblock: string) (sourceVariable: string)
      (property: string)
  | COMPUTE_STATEMENT (assignedVariable: string) (conditions: "(string option \<times> string) list")
  | OTHER_STATEMENT

record ParsedRuleblock =
  name :: string
  text' :: string
  isActive :: bool
  rules :: "rule list"

subsection \<open>Sets and maps of the host language\<close>

text \<open>
  A \<open>Set<string>\<close> iterates in insertion order and \<open>add\<close> of a member changes
  nothing: a duplicate-free list, new members appended.  A \<open>Map<string, Set<string>>\<close>
  iterates in the order its keys were first set: an association list, updated in place
  (\<open>AList.update\<close> replaces the value of a present key where it stands and appends an
  absent one).
\<close>

definition set_add :: "'a \<Rightarrow> 'a list \<Rightarrow> 'a list" where
  "set_add x xs = (if x \<in> set xs then xs else xs @ [x])"

record ExtractedDependencies =
  eadvAttributes :: "string list"
  bindDependencies :: "(string \<times> string list) list"

subsection \<open>extractDependencies\<close>

definition extractRule :: "ExtractedDependencies \<Rightarrow> rule \<Rightarrow> ExtractedDependencies" where
  "extractRule deps rule =
     (case rule of
        FETCH_STATEMENT _ _ attrs _ _ \<Rightarrow>
          deps\<lparr>eadvAttributes := foldl (\<lambda>acc attr. set_add attr acc) (eadvAttributes deps) attrs\<rparr>
      | BIND_STATEMENT _ srcRuleblock srcVariable _ \<Rightarrow>
          (let tableName = ''rout_'' @ srcRuleblock;
               m = bindDependencies deps;
               m' = (if map_of m tableName = None then AList.update tableName [] m else m);
               vars = (case map_of m' tableName of Some vs \<Rightarrow> vs | None \<Rightarrow> [])
           in deps\<lparr>bindDependencies := AList.update tableName (set_add srcVariable vars) m'\<rparr>)
      | _ \<Rightarrow> deps)"

definition extractDependencies :: "ParsedRuleblock list \<Rightarrow> ExtractedDependencies" where
  "extractDependencies ruleblocks =
     foldl (\<lambda>deps rb. foldl extractRule deps (rules rb))
       \<lparr>eadvAttributes = [], bindDependencies = []\<rparr> ruleblocks"

definition extractAttributeList :: "ParsedRuleblock list \<Rightarrow> string list" where
  "extractAttributeList ruleblocks = eadvAttributes (extractDependencies ruleblocks)"

subsection \<open>Wildcard attributes\<close>

definition isWildcardAttribute :: "string \<Rightarrow> bool" where
  "isWildcardAttribute attribute \<longleftrightarrow> CHR ''%'' \<in> set attribute \<or> CHR ''*'' \<in> set attribute"

definition chars :: string where
  "chars = ''abcdefghijklmnopqrstuvwxyz''"

text \<open>
  \<open>suffix += chars[i]\<close>: an index outside the string reads \<open>undefined\<close>, and string
  concatenation appends the nine characters of that word.
\<close>

definition charsAt :: "int \<Rightarrow> string" where
  "charsAt i = (if 0 \<le> i \<and> i < int (length chars) then [chars ! nat i] else ''undefined'')"

fun generateRandomSuffix :: "prng \<Rightarrow> nat \<Rightarrow> string \<times> prng" where
  "generateRandomSuffix random 0 = ([], random)"
| "generateRandomSuffix random (Suc n) =
     (let c = charsAt \<lfloor>shd random * real (length chars)\<rfloor>;
          (rest, random') = generateRandomSuffix (stl random) n
      in (c @ rest, random'))"

text \<open>\<open>s.replace(c, r)\<close> with a one-character string pattern: the first occurrence only.\<close>

fun replaceFirst :: "char \<Rightarrow> string \<Rightarrow> string \<Rightarrow> string" where
  "replaceFirst c r [] = []"
| "replaceFirst c r (x # xs) = (if x = c then r @ xs else x # replaceFirst c r xs)"

datatype wildcard = Percent | Star

fun wildcardChar :: "wildcard \<Rightarrow> char" where
  "wildcardChar Percent = CHR ''%''"
| "wildcardChar Star = CHR ''*''"

lemma charsAt_chars: "set (charsAt i) \<subseteq> set chars \<union> set ''undefined''"
proof (cases "0 \<le> i \<and> i < int (length chars)")
  case True
  then have "nat i < length chars"
    by linarith
  then have "chars ! nat i \<in> set chars"
    by (rule nth_mem)
  moreover have "charsAt i = [chars ! nat i]"
    unfolding charsAt_def using True by (rule if_P)
  ultimately show ?thesis
    by simp
next
  case False
  have "charsAt i = ''undefined''"
    unfolding charsAt_def using False by (rule if_not_P)
  then show ?thesis
    by simp
qed

lemma generateRandomSuffix_chars:
  "set (fst (generateRandomSuffix random n)) \<subseteq> set chars \<union> set ''undefined''"
proof (induction n arbitrary: random)
  case 0
  then show ?case by simp
next
  case (Suc n)
  obtain rest random' where eq: "generateRandomSuffix (stl random) n = (rest, random')"
    by (cases "generateRandomSuffix (stl random) n")
  from Suc[of "stl random"] eq have "set rest \<subseteq> set chars \<union> set ''undefined''"
    by simp
  with charsAt_chars[of "\<lfloor>shd random * real (length chars)\<rfloor>"] show ?case
    by (simp add: eq Let_def)
qed

lemma wildcardChar_not_suffix:
  "wildcardChar w \<notin> set (fst (generateRandomSuffix random n))"
proof -
  have "wildcardChar w \<notin> set chars \<union> set ''undefined''"
    by (cases w) (simp_all add: chars_def)
  then show ?thesis
    using generateRandomSuffix_chars by blast
qed

lemma replaceFirst_count:
  "c \<in> set s \<Longrightarrow> c \<notin> set r \<Longrightarrow>
   length (filter ((=) c) (replaceFirst c r s)) < length (filter ((=) c) s)"
  by (induction s) (auto simp: filter_empty_conv)

text \<open>
  The two loops of \<open>expandWildcardAttribute\<close>,
  \<open>while (expanded.includes(c)) expanded = expanded.replace(c, generateRandomSuffix(random, 2))\<close>,
  one for each marker.  Every round removes one marker and the suffix holds none, so the
  loop ends.
\<close>

function replaceWhile :: "wildcard \<Rightarrow> string \<Rightarrow> prng \<Rightarrow> string \<times> prng" where
  "replaceWhile w expanded random =
     (if wildcardChar w \<in> set expanded
      then (let (suffix, random') = generateRandomSuffix random 2
            in replaceWhile w (replaceFirst (wildcardChar w) suffix expanded) random')
      else (expanded, random))"
  by pat_completeness auto
termination
proof (relation "measure (\<lambda>(w, expanded, random). length (filter ((=) (wildcardChar w)) expanded))")
  show "wf (measure (\<lambda>(w, expanded, random). length (filter ((=) (wildcardChar w)) expanded)))"
    by simp
next
  fix w :: wildcard and expanded :: string and random :: prng and x suffix random'
  assume "wildcardChar w \<in> set expanded" "x = generateRandomSuffix random 2" "(suffix, random') = x"
  then have "wildcardChar w \<notin> set suffix"
    using wildcardChar_not_suffix[of w random 2] by (metis fst_conv)
  with \<open>wildcardChar w \<in> set expanded\<close>
  show "((w, replaceFirst (wildcardChar w) suffix expanded, random'), (w, expanded, random))
        \<in> measure (\<lambda>(w, expanded, random). length (filter ((=) (wildcardChar w)) expanded))"
    by (simp add: replaceFirst_count)
qed

declare replaceWhile.simps [simp del]

definition expandWildcardAttribute :: "string \<Rightarrow> prng \<Rightarrow> string \<times> prng" where
  "expandWildcardAttribute attribute random =
     (if \<not> isWildcardAttribute attribute then (attribute, random)
      else
        (let (expanded, random1) = replaceWhile Percent attribute random;
             (expanded', random2) = replaceWhile Star expanded random1
         in (expanded', random2)))"

fun expandWildcardAttributes :: "string list \<Rightarrow> prng \<Rightarrow> string list \<times> prng" where
  "expandWildcardAttributes [] random = ([], random)"
| "expandWildcardAttributes (attr # attrs) random =
     (let (a, random1) = expandWildcardAttribute attr random;
          (as, random2) = expandWildcardAttributes attrs random1
      in (a # as, random2))"

definition filterConcreteAttributes :: "string list \<Rightarrow> string list" where
  "filterConcreteAttributes attributes = filter (\<lambda>attr. \<not> isWildcardAttribute attr) attributes"

subsection \<open>What the two loops compute\<close>

text \<open>
  One pass over the string, left to right, that replaces every occurrence of one marker by
  a freshly drawn suffix of two characters.
\<close>

fun substituteEach :: "wildcard \<Rightarrow> string \<Rightarrow> prng \<Rightarrow> string \<times> prng" where
  "substituteEach w [] random = ([], random)"
| "substituteEach w (x # xs) random =
     (if x = wildcardChar w
      then (let (suffix, random1) = generateRandomSuffix random 2;
                (rest, random2) = substituteEach w xs random1
            in (suffix @ rest, random2))
      else (let (rest, random2) = substituteEach w xs random
            in (x # rest, random2)))"

text \<open>
  The reading of the specification: one pass that replaces the markers of either kind in
  the order in which they stand in the string.
\<close>

fun expandInOrder :: "string \<Rightarrow> prng \<Rightarrow> string \<times> prng" where
  "expandInOrder [] random = ([], random)"
| "expandInOrder (x # xs) random =
     (if x = CHR ''%'' \<or> x = CHR ''*''
      then (let (suffix, random1) = generateRandomSuffix random 2;
                (rest, random2) = expandInOrder xs random1
            in (suffix @ rest, random2))
      else (let (rest, random2) = expandInOrder xs random
            in (x # rest, random2)))"

definition markers :: "wildcard \<Rightarrow> string \<Rightarrow> nat" where
  "markers w s = length (filter ((=) (wildcardChar w)) s)"

lemma generateRandomSuffix_draws: "snd (generateRandomSuffix random n) = sdrop n random"
  by (induction n arbitrary: random) (simp_all add: Let_def case_prod_beta)

lemma replaceFirst_prefix:
  "c \<notin> set pre \<Longrightarrow> replaceFirst c r (pre @ c # xs) = pre @ r @ xs"
  by (induction pre) auto

lemma replaceWhile_prefix:
  "wildcardChar w \<notin> set pre \<Longrightarrow>
   replaceWhile w (pre @ s) random =
     (pre @ fst (substituteEach w s random), snd (substituteEach w s random))"
proof (induction s arbitrary: pre random)
  case Nil
  then show ?case
    by (subst replaceWhile.simps) simp
next
  case (Cons x xs)
  show ?case
  proof (cases "x = wildcardChar w")
    case True
    obtain suffix random1 where g: "generateRandomSuffix random 2 = (suffix, random1)"
      by (cases "generateRandomSuffix random 2")
    then have fresh: "wildcardChar w \<notin> set (pre @ suffix)"
      using Cons.prems wildcardChar_not_suffix[of w random 2] by simp
    have "replaceWhile w (pre @ x # xs) random = replaceWhile w ((pre @ suffix) @ xs) random1"
      using True Cons.prems by (subst replaceWhile.simps) (simp add: g replaceFirst_prefix)
    also have "\<dots> = ((pre @ suffix) @ fst (substituteEach w xs random1),
                      snd (substituteEach w xs random1))"
      using fresh by (rule Cons.IH)
    finally show ?thesis
      using True by (simp add: g split: prod.splits)
  next
    case False
    then have "wildcardChar w \<notin> set (pre @ [x])"
      using Cons.prems by auto
    then have "replaceWhile w ((pre @ [x]) @ xs) random =
        ((pre @ [x]) @ fst (substituteEach w xs random), snd (substituteEach w xs random))"
      by (rule Cons.IH)
    then show ?thesis
      using False by (simp add: split: prod.splits)
  qed
qed

lemma replaceWhile_substituteEach: "replaceWhile w s random = substituteEach w s random"
  using replaceWhile_prefix[of w "[]" s random] by simp

lemma substituteEach_draws:
  "snd (substituteEach w s random) = sdrop (2 * markers w s) random"
proof (induction s arbitrary: random)
  case Nil
  then show ?case by (simp add: markers_def)
next
  case (Cons x xs)
  show ?case
  proof (cases "x = wildcardChar w")
    case True
    have "snd (substituteEach w (x # xs) random)
        = snd (substituteEach w xs (snd (generateRandomSuffix random 2)))"
      using True by (simp add: case_prod_beta)
    also have "\<dots> = sdrop (2 * markers w xs) (sdrop 2 random)"
      by (simp add: Cons.IH generateRandomSuffix_draws)
    finally show ?thesis
      using True by (simp add: markers_def)
  next
    case False
    then show ?thesis
      using Cons.IH[of random] by (simp add: markers_def case_prod_beta)
  qed
qed

lemma substituteEach_set:
  "set (fst (substituteEach w s random))
     \<subseteq> (set s - {wildcardChar w}) \<union> set chars \<union> set ''undefined''"
proof (induction s arbitrary: random)
  case Nil
  then show ?case by simp
next
  case (Cons x xs)
  show ?case
  proof (cases "x = wildcardChar w")
    case True
    obtain suffix random1 where g: "generateRandomSuffix random 2 = (suffix, random1)"
      by (cases "generateRandomSuffix random 2")
    have "set suffix \<subseteq> set chars \<union> set ''undefined''"
      using generateRandomSuffix_chars[of random 2] by (simp add: g)
    moreover note Cons.IH[of random1]
    ultimately show ?thesis
      using True by (auto simp: g split: prod.splits)
  next
    case False
    then show ?thesis
      using Cons.IH[of random] by (auto split: prod.splits)
  qed
qed

lemma substituteEach_no_marker: "wildcardChar w \<notin> set (fst (substituteEach w s random))"
proof -
  have "wildcardChar w \<notin> set chars \<union> set ''undefined''"
    by (cases w) (simp_all add: chars_def)
  then show ?thesis
    using substituteEach_set[of w s random] by blast
qed

lemma substituteEach_other_marker:
  "c \<notin> set s \<Longrightarrow> c \<notin> set chars \<union> set ''undefined'' \<Longrightarrow>
   c \<notin> set (fst (substituteEach w s random))"
  using substituteEach_set[of w s random] by blast

lemma substituteEach_id: "wildcardChar w \<notin> set s \<Longrightarrow> substituteEach w s random = (s, random)"
  by (induction s) auto

subsection \<open>What extractDependencies computes\<close>

text \<open>
  The contribution of one rule, in the words of the specification: a fetch statement
  contributes the names of its attribute list, a bind statement contributes its source
  variable to the table \<open>rout_\<close> + source rule block, any other rule contributes nothing.
\<close>

fun fetchedAttributes :: "rule \<Rightarrow> string set" where
  "fetchedAttributes (FETCH_STATEMENT v t attrs p f) = set attrs"
| "fetchedAttributes (BIND_STATEMENT v rb sv p) = {}"
| "fetchedAttributes (COMPUTE_STATEMENT v cs) = {}"
| "fetchedAttributes OTHER_STATEMENT = {}"

fun boundVariables :: "rule \<Rightarrow> (string \<times> string) set" where
  "boundVariables (FETCH_STATEMENT v t attrs p f) = {}"
| "boundVariables (BIND_STATEMENT v rb sv p) = {(''rout_'' @ rb, sv)}"
| "boundVariables (COMPUTE_STATEMENT v cs) = {}"
| "boundVariables OTHER_STATEMENT = {}"

text \<open>\<open>bindDependencies.get(tableName)\<close> read as a set, empty for an absent key.\<close>

definition boundSet :: "ExtractedDependencies \<Rightarrow> string \<Rightarrow> string set" where
  "boundSet deps tableName =
     (case map_of (bindDependencies deps) tableName of None \<Rightarrow> {} | Some vs \<Rightarrow> set vs)"

definition allRules :: "ParsedRuleblock list \<Rightarrow> rule list" where
  "allRules ruleblocks = concat (map rules ruleblocks)"

text \<open>The accumulators stay duplicate-free: they are sets and a map.\<close>

definition wellFormedDeps :: "ExtractedDependencies \<Rightarrow> bool" where
  "wellFormedDeps deps \<longleftrightarrow>
     distinct (eadvAttributes deps) \<and> distinct (map fst (bindDependencies deps))
     \<and> list_all (\<lambda>(t, vs). distinct vs \<and> vs \<noteq> []) (bindDependencies deps)"

lemma set_add_set [simp]: "set (set_add x xs) = insert x (set xs)"
  by (auto simp: set_add_def)

lemma set_add_distinct [simp]: "distinct (set_add x xs) = distinct xs"
  by (auto simp: set_add_def)

lemma set_add_nonempty [simp]: "set_add x xs \<noteq> []"
  by (auto simp: set_add_def)

lemma foldl_set_add_set: "set (foldl (\<lambda>acc a. set_add a acc) xs as) = set xs \<union> set as"
  by (induction as arbitrary: xs) auto

lemma foldl_set_add_distinct: "distinct (foldl (\<lambda>acc a. set_add a acc) xs as) = distinct xs"
  by (induction as arbitrary: xs) auto

lemma extractRule_FETCH:
  "extractRule deps (FETCH_STATEMENT v t attrs p f) =
     deps\<lparr>eadvAttributes := foldl (\<lambda>acc a. set_add a acc) (eadvAttributes deps) attrs\<rparr>"
  by (simp add: extractRule_def)

lemma extractRule_BIND:
  "extractRule deps (BIND_STATEMENT v rb sv p) =
     deps\<lparr>bindDependencies :=
       AList.update (''rout_'' @ rb)
         (set_add sv (case map_of (bindDependencies deps) (''rout_'' @ rb) of
                        Some vs \<Rightarrow> vs | None \<Rightarrow> []))
         (bindDependencies deps)\<rparr>"
  by (simp add: extractRule_def Let_def update_conv' split: option.splits)

lemma extractRule_other:
  "extractRule deps (COMPUTE_STATEMENT v cs) = deps" "extractRule deps OTHER_STATEMENT = deps"
  by (simp_all add: extractRule_def)

lemma list_all_update:
  "list_all P al \<Longrightarrow> P (k, v) \<Longrightarrow> list_all P (AList.update k v al)"
  by (induction al) auto

lemma extractRule_attributes:
  "set (eadvAttributes (extractRule deps r)) = set (eadvAttributes deps) \<union> fetchedAttributes r"
  by (cases r) (simp_all add: extractRule_FETCH extractRule_BIND extractRule_other foldl_set_add_set)

lemma extractRule_boundSet:
  "boundSet (extractRule deps r) t = boundSet deps t \<union> {v. (t, v) \<in> boundVariables r}"
  by (cases r)
     (auto simp: extractRule_FETCH extractRule_BIND extractRule_other boundSet_def update_conv'
           split: option.splits)

lemma extractRule_keys:
  "fst ` set (bindDependencies (extractRule deps r))
     = fst ` set (bindDependencies deps) \<union> fst ` boundVariables r"
  by (cases r)
     (simp_all add: extractRule_FETCH extractRule_BIND extractRule_other dom_update)

lemma extractRule_wellFormed: "wellFormedDeps deps \<Longrightarrow> wellFormedDeps (extractRule deps r)"
proof (cases r)
  case (FETCH_STATEMENT v t attrs p f)
  assume "wellFormedDeps deps"
  then show ?thesis
    by (simp add: FETCH_STATEMENT extractRule_FETCH wellFormedDeps_def foldl_set_add_distinct)
next
  case (BIND_STATEMENT v rb sv p)
  assume wf: "wellFormedDeps deps"
  let ?t = "''rout_'' @ rb"
  have "distinct (case map_of (bindDependencies deps) ?t of Some vs \<Rightarrow> vs | None \<Rightarrow> [])"
  proof (cases "map_of (bindDependencies deps) ?t")
    case None
    then show ?thesis by simp
  next
    case (Some vs)
    then have "(?t, vs) \<in> set (bindDependencies deps)"
      by (rule map_of_SomeD)
    with wf show ?thesis
      by (auto simp: Some wellFormedDeps_def list_all_iff)
  qed
  with wf show ?thesis
    by (simp add: BIND_STATEMENT extractRule_BIND wellFormedDeps_def distinct_update list_all_update)
next
  case (COMPUTE_STATEMENT v cs)
  assume "wellFormedDeps deps"
  then show ?thesis
    by (simp add: COMPUTE_STATEMENT extractRule_other)
next
  case OTHER_STATEMENT
  assume "wellFormedDeps deps"
  then show ?thesis
    by (simp add: OTHER_STATEMENT extractRule_other)
qed

lemma foldl_extractRule:
  "set (eadvAttributes (foldl extractRule deps rs))
     = set (eadvAttributes deps) \<union> (\<Union>r\<in>set rs. fetchedAttributes r)"
  "boundSet (foldl extractRule deps rs) t
     = boundSet deps t \<union> {v. (t, v) \<in> (\<Union>r\<in>set rs. boundVariables r)}"
  "fst ` set (bindDependencies (foldl extractRule deps rs))
     = fst ` set (bindDependencies deps) \<union> fst ` (\<Union>r\<in>set rs. boundVariables r)"
  "wellFormedDeps deps \<Longrightarrow> wellFormedDeps (foldl extractRule deps rs)"
proof (induction rs arbitrary: deps)
  case Nil
  {
    case 1 show ?case by simp
  next
    case 2 show ?case by simp
  next
    case 3 show ?case by simp
  next
    case 4 then show ?case by simp
  }
next
  case (Cons r rs)
  {
    case 1 show ?case
      by (simp add: Cons.IH(1) extractRule_attributes Un_assoc)
  next
    case 2 show ?case
      by (auto simp: Cons.IH(2) extractRule_boundSet)
  next
    case 3 show ?case
      by (simp add: Cons.IH(3) extractRule_keys image_Un Un_assoc)
  next
    case 4 then show ?case
      by (simp add: Cons.IH(4) extractRule_wellFormed)
  }
qed

lemma extractDependencies_allRules:
  "extractDependencies ruleblocks =
     foldl extractRule \<lparr>eadvAttributes = [], bindDependencies = []\<rparr> (allRules ruleblocks)"
proof -
  have "foldl (\<lambda>deps rb. foldl extractRule deps (rules rb)) d rbs
      = foldl extractRule d (concat (map rules rbs))"
    for d :: ExtractedDependencies and rbs :: "ParsedRuleblock list"
    by (induction rbs arbitrary: d) simp_all
  then show ?thesis
    by (simp add: extractDependencies_def allRules_def)
qed

text \<open>
  C5 (dependency extraction).  For every sequence of rule blocks the attribute set is
  exactly the union of the attribute lists of the fetch statements, duplicates collapsed;
  the keys of the binding map are exactly the tables \<open>rout_\<close> + source rule block of the
  bind statements, each key holds exactly the source variables bound from that table,
  without duplicates; compute statements and rules of any other type change neither
  output.  The last conjunct is the scenario of the specification.
\<close>

theorem extractDependencies_correct:
  "set (eadvAttributes (extractDependencies ruleblocks))
     = (\<Union>r\<in>set (allRules ruleblocks). fetchedAttributes r)
   \<and> (\<forall>t. boundSet (extractDependencies ruleblocks) t
          = {v. (t, v) \<in> (\<Union>r\<in>set (allRules ruleblocks). boundVariables r)})
   \<and> fst ` set (bindDependencies (extractDependencies ruleblocks))
       = fst ` (\<Union>r\<in>set (allRules ruleblocks). boundVariables r)
   \<and> wellFormedDeps (extractDependencies ruleblocks)
   \<and> extractRule deps (COMPUTE_STATEMENT v cs) = deps
   \<and> extractRule deps OTHER_STATEMENT = deps
   \<and> extractDependencies
        [\<lparr>name = ''test'', text' = '''', isActive = True,
          rules = [FETCH_STATEMENT ''ua_rbc'' ''eadv'' [''lab_ua_rbc'', ''lab_ua_poc_rbc'']
                     ''val'' ''lastdv'',
                   BIND_STATEMENT ''ckd'' ''ckd'' ''ckd'' ''val'',
                   COMPUTE_STATEMENT ''has_ckd'' [(Some ''egfr < 60'', ''1''), (None, ''0'')]]\<rparr>]
       = \<lparr>eadvAttributes = [''lab_ua_rbc'', ''lab_ua_poc_rbc''],
          bindDependencies = [(''rout_ckd'', [''ckd''])]\<rparr>"
proof -
  let ?d0 = "\<lparr>eadvAttributes = [], bindDependencies = []\<rparr>"
  have wf0: "wellFormedDeps ?d0"
    by (simp add: wellFormedDeps_def)
  have "set (eadvAttributes (extractDependencies ruleblocks))
      = (\<Union>r\<in>set (allRules ruleblocks). fetchedAttributes r)"
    by (simp add: extractDependencies_allRules foldl_extractRule(1))
  moreover have "boundSet (extractDependencies ruleblocks) t
      = {v. (t, v) \<in> (\<Union>r\<in>set (allRules ruleblocks). boundVariables r)}" for t
  proof -
    have "boundSet ?d0 t = {}"
      by (simp add: boundSet_def)
    then show ?thesis
      by (simp add: extractDependencies_allRules foldl_extractRule(2))
  qed
  moreover have "fst ` set (bindDependencies (extractDependencies ruleblocks))
      = fst ` (\<Union>r\<in>set (allRules ruleblocks). boundVariables r)"
    by (simp add: extractDependencies_allRules foldl_extractRule(3))
  moreover have "wellFormedDeps (extractDependencies ruleblocks)"
    unfolding extractDependencies_allRules using wf0 by (rule foldl_extractRule(4))
  moreover have "extractDependencies
        [\<lparr>name = ''test'', text' = '''', isActive = True,
          rules = [FETCH_STATEMENT ''ua_rbc'' ''eadv'' [''lab_ua_rbc'', ''lab_ua_poc_rbc'']
                     ''val'' ''lastdv'',
                   BIND_STATEMENT ''ckd'' ''ckd'' ''ckd'' ''val'',
                   COMPUTE_STATEMENT ''has_ckd'' [(Some ''egfr < 60'', ''1''), (None, ''0'')]]\<rparr>]
       = \<lparr>eadvAttributes = [''lab_ua_rbc'', ''lab_ua_poc_rbc''],
          bindDependencies = [(''rout_ckd'', [''ckd''])]\<rparr>"
    by (simp add: extractDependencies_def extractRule_FETCH extractRule_BIND extractRule_other
        set_add_def)
  ultimately show ?thesis
    by (simp add: extractRule_other)
qed

text \<open>The first draws of the generator of seed \<open>12345\<close>, and the letters they select.\<close>

lemma lcg_12345:
  "lcg_step (lcg_init 12345) = 1406932606"
  "lcg_step 1406932606 = 654583808"
  "lcg_step 654583808 = 1358247936"
  "lcg_step 1358247936 = 2138638336"
  by code_simp+

lemma charsAt_12345:
  "charsAt 17 = ''r''" "charsAt 7 = ''h''" "charsAt 16 = ''q''" "charsAt 25 = ''z''"
  by (simp_all add: charsAt_def chars_def)

lemma suffixes_12345:
  "fst (generateRandomSuffix (createSeededRandom 12345) 2) = ''rh''"
  "fst (generateRandomSuffix (sdrop 2 (createSeededRandom 12345)) 2) = ''qz''"
  by (simp_all add: createSeededRandom_def numeral_2_eq_2 lcg_12345 lcg_out_def lcg_m_def
      chars_def charsAt_12345 Let_def)

text \<open>
  C4 (wildcard expansion algorithm).  The claim has the substitutions run over the
  markers in the order in which they stand in the string (\<open>expandInOrder\<close>).  The code
  runs two loops, one after the other: with the generator of seed \<open>12345\<close> the name
  \<open>*%\<close> becomes \<open>qzrh\<close>: the first suffix drawn, \<open>rh\<close>, replaces the \<open>%\<close>, which
  stands second, where the reading of the claim gives \<open>rhqz\<close>.
\<close>

theorem expandWildcardAttribute_not_in_order:
  "fst (expandWildcardAttribute ''*%'' (createSeededRandom 12345)) = ''qzrh''
   \<and> fst (expandInOrder ''*%'' (createSeededRandom 12345)) = ''rhqz''
   \<and> expandWildcardAttribute ''*%'' (createSeededRandom 12345)
       \<noteq> expandInOrder ''*%'' (createSeededRandom 12345)"
proof -
  have code: "fst (expandWildcardAttribute ''*%'' (createSeededRandom 12345)) = ''qzrh''"
    by (simp add: expandWildcardAttribute_def isWildcardAttribute_def
        replaceWhile_substituteEach createSeededRandom_def numeral_2_eq_2 lcg_12345 lcg_out_def
        lcg_m_def chars_def charsAt_12345 Let_def)
  have spec: "fst (expandInOrder ''*%'' (createSeededRandom 12345)) = ''rhqz''"
    by (simp add: createSeededRandom_def numeral_2_eq_2 lcg_12345 lcg_out_def lcg_m_def
        chars_def charsAt_12345 Let_def)
  from code spec have "expandWildcardAttribute ''*%'' (createSeededRandom 12345)
       \<noteq> expandInOrder ''*%'' (createSeededRandom 12345)"
    by auto
  with code spec show ?thesis
    by simp
qed

lemma substituteEach_filter:
  assumes "c \<noteq> wildcardChar w" "c \<notin> set chars \<union> set ''undefined''"
  shows "filter ((=) c) (fst (substituteEach w s random)) = filter ((=) c) s"
proof (induction s arbitrary: random)
  case Nil
  then show ?case by simp
next
  case (Cons x xs)
  show ?case
  proof (cases "x = wildcardChar w")
    case True
    obtain suffix random1 where g: "generateRandomSuffix random 2 = (suffix, random1)"
      by (cases "generateRandomSuffix random 2")
    have "c \<notin> set suffix"
      using generateRandomSuffix_chars[of random 2] assms(2) by (auto simp: g)
    then have "filter ((=) c) suffix = []"
      by (auto simp: filter_empty_conv)
    then show ?thesis
      using True assms(1) Cons.IH[of random1] by (simp add: g case_prod_beta)
  next
    case False
    then show ?thesis
      using Cons.IH[of random] by (auto simp: case_prod_beta)
  qed
qed

lemma markers_Star_substituteEach_Percent:
  "markers Star (fst (substituteEach Percent s random)) = markers Star s"
  unfolding markers_def
  by (rule arg_cong[where f = length], rule substituteEach_filter) (simp_all add: chars_def)

lemma generateRandomSuffix_2:
  "generateRandomSuffix random 2 =
     (charsAt \<lfloor>shd random * 26\<rfloor> @ charsAt \<lfloor>shd (stl random) * 26\<rfloor>, stl (stl random))"
  by (simp add: numeral_2_eq_2 chars_def)

lemma charsAt_in_range:
  fixes u :: real
  assumes "0 \<le> u" "u < 1"
  shows "charsAt \<lfloor>u * 26\<rfloor> = [chars ! nat \<lfloor>u * 26\<rfloor>] \<and> nat \<lfloor>u * 26\<rfloor> < 26"
proof -
  have "0 \<le> u * 26" "u * 26 < 26"
    using assms by simp_all
  then have b: "0 \<le> \<lfloor>u * 26\<rfloor>" "\<lfloor>u * 26\<rfloor> < 26"
    by (simp_all add: floor_less_iff)
  then have "nat \<lfloor>u * 26\<rfloor> < 26"
    by linarith
  moreover have "charsAt \<lfloor>u * 26\<rfloor> = [chars ! nat \<lfloor>u * 26\<rfloor>]"
    using b by (simp add: charsAt_def chars_def)
  ultimately show ?thesis
    by simp
qed

text \<open>
  C4 as the code has it.  A name without a marker is returned unchanged and no draw is
  consumed.  Otherwise every \<open>%\<close> is replaced first, left to right, and then every
  \<open>*\<close>, left to right; each replacement consumes exactly two draws and puts
  \<open>chars[floor(draw * 26)]\<close> for each of them, two lowercase letters when the draws lie
  in \<open>[0,1)\<close>; the result holds no marker.
\<close>

theorem expandWildcardAttribute_two_passes:
  "expandWildcardAttribute attribute random =
     (let (expanded, random1) = substituteEach Percent attribute random
      in substituteEach Star expanded random1)
   \<and> \<not> isWildcardAttribute (fst (expandWildcardAttribute attribute random))
   \<and> snd (expandWildcardAttribute attribute random)
       = sdrop (2 * (markers Percent attribute + markers Star attribute)) random
   \<and> (\<not> isWildcardAttribute attribute
        \<longrightarrow> expandWildcardAttribute attribute random = (attribute, random))
   \<and> (0 \<le> shd random \<and> shd random < 1 \<and> 0 \<le> shd (stl random) \<and> shd (stl random) < 1
        \<longrightarrow> generateRandomSuffix random 2
              = ([chars ! nat \<lfloor>shd random * 26\<rfloor>, chars ! nat \<lfloor>shd (stl random) * 26\<rfloor>],
                 stl (stl random))
            \<and> nat \<lfloor>shd random * 26\<rfloor> < length chars
            \<and> nat \<lfloor>shd (stl random) * 26\<rfloor> < length chars)"
proof -
  let ?two = "let (expanded, random1) = substituteEach Percent attribute random
              in substituteEach Star expanded random1"
  have eq: "expandWildcardAttribute attribute random = ?two"
  proof (cases "isWildcardAttribute attribute")
    case True
    then show ?thesis
      by (simp add: expandWildcardAttribute_def replaceWhile_substituteEach case_prod_beta)
  next
    case False
    then have "wildcardChar Percent \<notin> set attribute" "wildcardChar Star \<notin> set attribute"
      by (simp_all add: isWildcardAttribute_def)
    then show ?thesis
      using False by (simp add: expandWildcardAttribute_def substituteEach_id)
  qed
  have star: "CHR ''*'' \<notin> set (fst ?two)"
    using substituteEach_no_marker[of Star] by (simp add: case_prod_beta)
  have "CHR ''%'' \<notin> set (fst (substituteEach Percent attribute random))"
    using substituteEach_no_marker[of Percent] by simp
  moreover have "CHR ''%'' \<notin> set chars \<union> set ''undefined''"
    by (simp add: chars_def)
  ultimately have percent: "CHR ''%'' \<notin> set (fst ?two)"
    using substituteEach_other_marker[of "CHR ''%''" _ Star]
    by (simp add: case_prod_beta)
  have clean: "\<not> isWildcardAttribute (fst (expandWildcardAttribute attribute random))"
    using star percent by (simp add: eq isWildcardAttribute_def)
  have draws: "snd (expandWildcardAttribute attribute random)
       = sdrop (2 * (markers Percent attribute + markers Star attribute)) random"
    by (simp add: eq case_prod_beta substituteEach_draws markers_Star_substituteEach_Percent
        add.commute)
  have unchanged: "expandWildcardAttribute attribute random = (attribute, random)"
    if "\<not> isWildcardAttribute attribute"
    using that by (simp add: expandWildcardAttribute_def)
  have letters: "generateRandomSuffix random 2
              = ([chars ! nat \<lfloor>shd random * 26\<rfloor>, chars ! nat \<lfloor>shd (stl random) * 26\<rfloor>],
                 stl (stl random))
            \<and> nat \<lfloor>shd random * 26\<rfloor> < length chars
            \<and> nat \<lfloor>shd (stl random) * 26\<rfloor> < length chars"
    if "0 \<le> shd random \<and> shd random < 1 \<and> 0 \<le> shd (stl random) \<and> shd (stl random) < 1"
  proof -
    have "length chars = 26"
      by (simp add: chars_def)
    then show ?thesis
      using that charsAt_in_range[of "shd random"] charsAt_in_range[of "shd (stl random)"]
      by (simp add: generateRandomSuffix_2)
  qed
  show ?thesis
    by (rule conjI[OF eq conjI[OF clean conjI[OF draws conjI[OF impI[OF unchanged] impI[OF letters]]]]])
qed

theorem expandWildcardAttribute_two_passes_witness:
  "\<not> isWildcardAttribute ''lab_bld_egfr''
   \<and> expandWildcardAttribute ''lab_bld_egfr'' (createSeededRandom 12345)
       = (''lab_bld_egfr'', createSeededRandom 12345)
   \<and> 0 \<le> shd (createSeededRandom 12345) \<and> shd (createSeededRandom 12345) < 1
   \<and> 0 \<le> shd (stl (createSeededRandom 12345)) \<and> shd (stl (createSeededRandom 12345)) < 1
   \<and> fst (generateRandomSuffix (createSeededRandom 12345) 2) = ''rh''
   \<and> nat \<lfloor>shd (createSeededRandom 12345) * 26\<rfloor> < length chars"
proof -
  have w: "\<not> isWildcardAttribute ''lab_bld_egfr''"
    by (simp add: isWildcardAttribute_def)
  have r: "0 \<le> shd (createSeededRandom 12345) \<and> shd (createSeededRandom 12345) < 1
     \<and> 0 \<le> shd (stl (createSeededRandom 12345)) \<and> shd (stl (createSeededRandom 12345)) < 1"
    by (simp add: createSeededRandom_def lcg_12345 lcg_out_def lcg_m_def)
  show ?thesis
    using w r suffixes_12345(1)
      expandWildcardAttribute_two_passes[of "''lab_bld_egfr''" "createSeededRandom 12345"]
    by simp
qed

lemma lcg_878:
  "lcg_step (lcg_init 878) = 371272207"
  "lcg_step 371272207 = 1569303232"
  "lcg_step 1569303232 = 371483648"
  "lcg_step 371483648 = 1542898752"
  by code_simp+

lemma charsAt_878: "charsAt 4 = ''e''" "charsAt 18 = ''s''"
  by (simp_all add: charsAt_def chars_def)

text \<open>
  C9 (distinctness and detection).  The claim: for every seed two expansions of
  \<open>lab_%\<close> in sequence on the same generator give different names.  With seed \<open>878\<close>
  the four draws select the letters \<open>e, s, e, s\<close>: both expansions give \<open>lab_es\<close>.
\<close>

theorem expandWildcardAttribute_same_name_twice:
  "fst (expandWildcardAttribute ''lab_%'' (createSeededRandom 878)) = ''lab_es''
   \<and> fst (expandWildcardAttribute ''lab_%''
            (snd (expandWildcardAttribute ''lab_%'' (createSeededRandom 878)))) = ''lab_es''"
  by (simp add: expandWildcardAttribute_def isWildcardAttribute_def replaceWhile_substituteEach
      createSeededRandom_def numeral_2_eq_2 lcg_878 lcg_out_def lcg_m_def chars_def charsAt_878
      Let_def)

text \<open>
  C9 as the code has it.  Two expansions of \<open>lab_%\<close> in sequence consume the draws
  1, 2 and then 3, 4 and give \<open>lab_\<close> followed by the suffix of each pair, so the names
  differ exactly when the suffixes do, as with seed \<open>12345\<close> (\<open>lab_rh\<close>, then
  \<open>lab_qz\<close>); \<open>lab_bld_egfr\<close> is not a wildcard attribute, \<open>lab_%\<close> and \<open>lab_*\<close>
  are.
\<close>

theorem expandWildcardAttribute_twice:
  "(let (name1, random1) = expandWildcardAttribute ''lab_%'' random;
        (name2, random2) = expandWildcardAttribute ''lab_%'' random1
    in name1 = ''lab_'' @ fst (generateRandomSuffix random 2)
       \<and> name2 = ''lab_'' @ fst (generateRandomSuffix (sdrop 2 random) 2)
       \<and> random2 = sdrop 4 random)
   \<and> fst (expandWildcardAttribute ''lab_%'' (createSeededRandom 12345)) = ''lab_rh''
   \<and> fst (expandWildcardAttribute ''lab_%''
            (snd (expandWildcardAttribute ''lab_%'' (createSeededRandom 12345)))) = ''lab_qz''
   \<and> \<not> isWildcardAttribute ''lab_bld_egfr''
   \<and> isWildcardAttribute ''lab_%'' \<and> isWildcardAttribute ''lab_*''"
proof -
  have one: "expandWildcardAttribute ''lab_%'' r
      = (''lab_'' @ fst (generateRandomSuffix r 2), sdrop 2 r)" for r
  proof -
    have "wildcardChar Star \<notin> set (''lab_'' @ fst (generateRandomSuffix r 2))"
      using wildcardChar_not_suffix[of Star r 2] by simp
    then have "substituteEach Star (''lab_'' @ fst (generateRandomSuffix r 2)) (sdrop 2 r)
        = (''lab_'' @ fst (generateRandomSuffix r 2), sdrop 2 r)"
      by (rule substituteEach_id)
    moreover have "substituteEach Percent ''lab_%'' r
        = (''lab_'' @ fst (generateRandomSuffix r 2), sdrop 2 r)"
      using generateRandomSuffix_draws[of r 2] by (simp add: case_prod_beta)
    moreover have "isWildcardAttribute ''lab_%''"
      by (simp add: isWildcardAttribute_def)
    ultimately show ?thesis
      by (simp add: expandWildcardAttribute_def replaceWhile_substituteEach)
  qed
  have "sdrop 2 (sdrop 2 random) = sdrop 4 random"
    by simp
  then show ?thesis
    using suffixes_12345 by (simp add: one isWildcardAttribute_def)
qed

section \<open>Date utilities (utils/date-utils)\<close>

text \<open>
  A \<open>Date\<close> is modelled by its time value: an integer number of milliseconds, or
  \<open>None\<close> for an Invalid Date, whose \<open>getTime()\<close> is \<open>NaN\<close>.  The time value of a
  valid date lies within \<open>8.64e15\<close> milliseconds of the epoch (\<open>validTime\<close>).
  \<open>new Date(ms)\<close> truncates \<open>ms\<close> towards zero and gives an Invalid Date when \<open>ms\<close>
  is \<open>NaN\<close> or out of that range.

  The arithmetic of the date engine is binary64 in the program and is idealised here as
  arithmetic on \<open>real\<close>; a \<open>real option\<close> stands for a number that may be \<open>NaN\<close>
  (\<open>None\<close>) at the places where the program can produce one.  The start and the end of
  the date range are valid dates, given by their time values.
\<close>

type_synonym Date = "int option"


definition newDate :: "real option \<Rightarrow> Date" where
  "newDate ms =
     (case ms of
        None \<Rightarrow> None
      | Some x \<Rightarrow>
          if \<bar>x\<bar> > 8640000000000000 then None
          else Some (if 0 \<le> x then \<lfloor>x\<rfloor> else \<lceil>x\<rceil>))"

datatype DateDistribution = uniform | recent_weighted | clustered

subsection \<open>Uniform distribution\<close>

text \<open>
  The loop \<open>for (let i = 0; i < count; i++)\<close> runs over the indices \<open>[0..<count]\<close>.
  With \<open>count = 0\<close> the quotient \<open>rangeMs / count\<close> is \<open>Infinity\<close> or \<open>NaN\<close> in
  the program and \<open>0\<close> here; the loop body, its only reader, is not run then.
\<close>

fun uniformLoop :: "real \<Rightarrow> real \<Rightarrow> nat list \<Rightarrow> prng \<Rightarrow> Date list \<times> prng" where
  "uniformLoop startMs segmentSize [] random = ([], random)"
| "uniformLoop startMs segmentSize (i # is) random =
     (let segmentStart = startMs + real i * segmentSize;
          jitter = shd random * segmentSize * 0.8;
          ms = segmentStart + jitter;
          (dates, random') = uniformLoop startMs segmentSize is (stl random)
      in (newDate (Some ms) # dates, random'))"

definition generateUniformDates :: "nat \<Rightarrow> int \<Rightarrow> int \<Rightarrow> prng \<Rightarrow> Date list \<times> prng" where
  "generateUniformDates count startMs endMs random =
     (let rangeMs = real_of_int endMs - real_of_int startMs in
      if count = 1
      then (let ms = real_of_int startMs + shd random * rangeMs
            in ([newDate (Some ms)], stl random))
      else (let segmentSize = rangeMs / real count
            in uniformLoop (real_of_int startMs) segmentSize [0..<count] random))"

subsection \<open>Recent-weighted distribution\<close>

text \<open>
  \<open>Math.pow(u, 1 / lambda)\<close> with the exponent \<open>1 / 2.5\<close>, which is not an integer:
  \<open>NaN\<close> for a negative base.
\<close>

definition Math_pow :: "real \<Rightarrow> real \<Rightarrow> real option" where
  "Math_pow x y = (if x < 0 then None else Some (x powr y))"

definition lambda :: real where
  "lambda = 2.5"

fun recentLoop :: "real \<Rightarrow> real \<Rightarrow> nat \<Rightarrow> prng \<Rightarrow> Date list \<times> prng" where
  "recentLoop startMs rangeMs 0 random = ([], random)"
| "recentLoop startMs rangeMs (Suc n) random =
     (let u = shd random;
          weighted = Math_pow u (1 / lambda);
          ms = map_option (\<lambda>w. startMs + w * rangeMs) weighted;
          (dates, random') = recentLoop startMs rangeMs n (stl random)
      in (newDate ms # dates, random'))"

definition generateRecentWeightedDates :: "nat \<Rightarrow> int \<Rightarrow> int \<Rightarrow> prng \<Rightarrow> Date list \<times> prng" where
  "generateRecentWeightedDates count startMs endMs random =
     (let rangeMs = real_of_int endMs - real_of_int startMs
      in recentLoop (real_of_int startMs) rangeMs count random)"

subsection \<open>Clustered distribution\<close>

text \<open>
  \<open>gaussianRandom\<close> draws \<open>u1\<close> and \<open>u2\<close> and then draws \<open>u1\<close> again while it is
  exactly \<open>0\<close>.  Nothing bounds that loop for an arbitrary generator, so it is a partial
  function: \<open>None\<close> is the loop that never ends.
\<close>

partial_function (option) retryWhileZero :: "real \<Rightarrow> prng \<Rightarrow> (real \<times> prng) option" where
  "retryWhileZero u1 random =
     (if u1 = 0 then retryWhileZero (shd random) (stl random) else Some (u1, random))"

text \<open>
  \<open>Math.sqrt(-2 * Math.log(u1)) * Math.cos(2 * Math.PI * u2)\<close> for \<open>u1 \<noteq> 0\<close>: the
  logarithm of a negative number and the square root of a negative number are \<open>NaN\<close>.
\<close>

definition boxMuller :: "real \<Rightarrow> real \<Rightarrow> real option" where
  "boxMuller u1 u2 =
     (if u1 < 0 then None
      else if - 2 * ln u1 < 0 then None
      else Some (sqrt (- 2 * ln u1) * cos (2 * pi * u2)))"

definition gaussianRandom :: "prng \<Rightarrow> (real option \<times> prng) option" where
  "gaussianRandom random =
     (let u1 = shd random;
          u2 = shd (stl random)
      in case retryWhileZero u1 (stl (stl random)) of
           None \<Rightarrow> None
         | Some (u1', random') \<Rightarrow> Some (boxMuller u1' u2, random'))"

fun clusterCentersLoop :: "real \<Rightarrow> real \<Rightarrow> nat \<Rightarrow> prng \<Rightarrow> real list \<times> prng" where
  "clusterCentersLoop startMs rangeMs 0 random = ([], random)"
| "clusterCentersLoop startMs rangeMs (Suc n) random =
     (let margin = rangeMs * 0.1;
          center = startMs + margin + shd random * (rangeMs - 2 * margin);
          (centers, random') = clusterCentersLoop startMs rangeMs n (stl random)
      in (center # centers, random'))"

text \<open>
  \<open>clusterCenters[clusterIndex]\<close> is \<open>undefined\<close> for an index outside the array, and
  arithmetic on it gives \<open>NaN\<close>; \<open>Math.max\<close> and \<open>Math.min\<close> keep a \<open>NaN\<close>.
\<close>

fun clusteredLoop ::
  "real \<Rightarrow> real \<Rightarrow> nat \<Rightarrow> real list \<Rightarrow> real \<Rightarrow> nat \<Rightarrow> prng
   \<Rightarrow> (Date list \<times> prng) option" where
  "clusteredLoop startMs endMs numClusters clusterCenters clusterSpread 0 random = Some ([], random)"
| "clusteredLoop startMs endMs numClusters clusterCenters clusterSpread (Suc n) random =
     (let clusterIndex = \<lfloor>shd random * real numClusters\<rfloor>;
          center = (if 0 \<le> clusterIndex \<and> clusterIndex < int (length clusterCenters)
                    then Some (clusterCenters ! nat clusterIndex) else None)
      in case gaussianRandom (stl random) of
           None \<Rightarrow> None
         | Some (z, random1) \<Rightarrow>
             (let ms = (case (center, z) of
                          (Some c, Some g) \<Rightarrow> Some (max startMs (min endMs (c + g * clusterSpread)))
                        | _ \<Rightarrow> None)
              in case clusteredLoop startMs endMs numClusters clusterCenters clusterSpread n
                        random1 of
                   None \<Rightarrow> None
                 | Some (dates, random') \<Rightarrow> Some (newDate ms # dates, random')))"

definition generateClusteredDates ::
  "nat \<Rightarrow> int \<Rightarrow> int \<Rightarrow> prng \<Rightarrow> (Date list \<times> prng) option" where
  "generateClusteredDates count startMs endMs random =
     (let rangeMs = real_of_int endMs - real_of_int startMs;
          numClusters = min 3 (max 1 (nat \<lceil>real count / 3\<rceil>));
          (clusterCenters, random1) =
             clusterCentersLoop (real_of_int startMs) rangeMs numClusters random;
          clusterSpread = rangeMs * 0.05
      in clusteredLoop (real_of_int startMs) (real_of_int endMs) numClusters clusterCenters
           clusterSpread count random1)"

subsection \<open>generateDates\<close>

text \<open>
  \<open>dates.sort((a, b) => b.getTime() - a.getTime())\<close>.  A comparator value \<open>NaN\<close>
  counts as \<open>0\<close>.  The sort of the language is stable; for a list of valid dates every
  stable sort gives the list computed here, by insertion.
\<close>

definition compareDates :: "Date \<Rightarrow> Date \<Rightarrow> int" where
  "compareDates a b = (case (a, b) of (Some x, Some y) \<Rightarrow> y - x | _ \<Rightarrow> 0)"

fun insertDate :: "Date \<Rightarrow> Date list \<Rightarrow> Date list" where
  "insertDate d [] = [d]"
| "insertDate d (x # xs) = (if compareDates d x \<le> 0 then d # x # xs else x # insertDate d xs)"

definition sortDates :: "Date list \<Rightarrow> Date list" where
  "sortDates dates = foldr insertDate dates []"

definition generateDates ::
  "nat \<Rightarrow> int \<Rightarrow> int \<Rightarrow> prng \<Rightarrow> DateDistribution \<Rightarrow> (Date list \<times> prng) option" where
  "generateDates count startDate endDate random distribution =
     (let startMs = startDate;
          endMs = endDate;
          result = (case distribution of
                      recent_weighted \<Rightarrow> Some (generateRecentWeightedDates count startMs endMs random)
                    | clustered \<Rightarrow> generateClusteredDates count startMs endMs random
                    | uniform \<Rightarrow> Some (generateUniformDates count startMs endMs random))
      in case result of
           None \<Rightarrow> None
         | Some (dates, random') \<Rightarrow> Some (sortDates dates, random'))"

subsection \<open>Properties of the date engine\<close>





















lemma clamp_between:
  fixes s e x :: real
  shows "s \<le> e \<Longrightarrow> s \<le> max s (min e x) \<and> max s (min e x) \<le> e"
  by auto



subsection \<open>The sort\<close>



lemma insertDate_set [simp]: "set (insertDate d xs) = insert d (set xs)"
  by (induction xs) auto

lemma sortDates_set [simp]: "set (sortDates dates) = set dates"
  by (induction dates) (simp_all add: sortDates_def)

lemma insertDate_length [simp]: "length (insertDate d xs) = Suc (length xs)"
  by (induction xs) auto

lemma sortDates_length [simp]: "length (sortDates dates) = length dates"
  by (induction dates) (simp_all add: sortDates_def)



subsection \<open>Length and draws of the three modes\<close>



















section \<open>Row generators\<close>

subsection \<open>Values, rows and options (models/types)\<close>

datatype jsValue = Num real | Str string | Null

text \<open>
  A value generator receives the generator closure and can do nothing with it but call
  it: it is modelled by the value it returns and the number of calls it makes, both a
  function of the values the closure will return.  Generators that read anything else
  (the ambient \<open>Math.random\<close>, a counter of their own) are outside the model.
\<close>

type_synonym ValueGenerator = "prng \<Rightarrow> jsValue \<times> nat"

record EadvRow =
  eid :: int
  att :: string
  dt :: string
  val :: jsValue

text \<open>
  A \<open>RoutRow\<close> is an object with the key \<open>eid\<close> and one key for each variable: an
  association list in the order in which the keys were first assigned.
\<close>

type_synonym RoutRow = "(string \<times> jsValue) list"

datatype DateFormat = iso_format | oracle_format | mssql_format

record ResolvedMockerOptions =
  entityCount :: nat
  entityIdStart :: int
  observationsPerEntity :: nat
  dateRange_start :: int
  dateRange_end :: int
  dateFormat :: DateFormat
  dateDistribution :: DateDistribution
  valueGenerators :: "string \<rightharpoonup> ValueGenerator"
  defaultValueGenerator :: ValueGenerator
  includeMockBindTables :: bool
  bindTableValues :: "string \<rightharpoonup> (string \<rightharpoonup> ValueGenerator)"
  seed :: int

text \<open>
  A call either returns, or throws the \<open>RangeError\<close> of \<open>toISOString\<close> on an Invalid
  Date, or does not return (the retry loop of \<open>gaussianRandom\<close>).
\<close>

datatype 'a outcome = Return 'a | RangeError | NoReturn

fun andThen :: "'a outcome \<Rightarrow> ('a \<Rightarrow> 'b outcome) \<Rightarrow> 'b outcome" where
  "andThen (Return x) f = f x"
| "andThen RangeError f = RangeError"
| "andThen NoReturn f = NoReturn"

subsection \<open>formatDate\<close>

text \<open>
  The calendar methods of a valid \<open>Date\<close> and the parser of date strings belong to the
  host language and depend on its time zone; they are parameters of the model.
\<close>

record DateMethods =
  toISOString :: "int \<Rightarrow> string"
  getFullYear :: "int \<Rightarrow> int"
  getMonth :: "int \<Rightarrow> nat"
  getDate :: "int \<Rightarrow> nat"
  getHours :: "int \<Rightarrow> nat"
  getMinutes :: "int \<Rightarrow> nat"
  getSeconds :: "int \<Rightarrow> nat"
  parseDateString :: "string \<Rightarrow> int"

fun showNat :: "nat \<Rightarrow> string" where
  "showNat n =
     (if n < 10 then [''0123456789'' ! n] else showNat (n div 10) @ [''0123456789'' ! (n mod 10)])"

declare showNat.simps [simp del]

definition showInt :: "int \<Rightarrow> string" where
  "showInt i = (if i < 0 then CHR ''-'' # showNat (nat (- i)) else showNat (nat i))"

definition padStart2 :: "string \<Rightarrow> string" where
  "padStart2 s = replicate (2 - length s) CHR ''0'' @ s"

definition months :: "string list" where
  "months = [''JAN'', ''FEB'', ''MAR'', ''APR'', ''MAY'', ''JUN'',
             ''JUL'', ''AUG'', ''SEP'', ''OCT'', ''NOV'', ''DEC'']"

definition formatDate :: "DateMethods \<Rightarrow> Date \<Rightarrow> DateFormat \<Rightarrow> string outcome" where
  "formatDate dm date format =
     (case format of
        iso_format \<Rightarrow>
          (case date of
             None \<Rightarrow> RangeError
           | Some t \<Rightarrow> Return (takeWhile (\<lambda>c. c \<noteq> CHR ''T'') (toISOString dm t)))
      | oracle_format \<Rightarrow>
          (case date of
             None \<Rightarrow> Return ''NaN-undefined-NaN''
           | Some t \<Rightarrow>
               (let day = padStart2 (showNat (getDate dm t));
                    month = (if getMonth dm t < length months then months ! getMonth dm t
                             else ''undefined'');
                    year = showInt (getFullYear dm t)
                in Return (day @ ''-'' @ month @ ''-'' @ year)))
      | mssql_format \<Rightarrow>
          (case date of
             None \<Rightarrow> Return ''NaN-NaN-NaN NaN:NaN:NaN''
           | Some t \<Rightarrow>
               Return (showInt (getFullYear dm t) @ ''-'' @ padStart2 (showNat (getMonth dm t + 1))
                       @ ''-'' @ padStart2 (showNat (getDate dm t)) @ '' ''
                       @ padStart2 (showNat (getHours dm t)) @ '':''
                       @ padStart2 (showNat (getMinutes dm t)) @ '':''
                       @ padStart2 (showNat (getSeconds dm t)))))"

definition parseDate :: "DateMethods \<Rightarrow> string + int \<Rightarrow> int" where
  "parseDate dm input = (case input of Inr date \<Rightarrow> date | Inl s \<Rightarrow> parseDateString dm s)"

subsection \<open>EADV rows (generators/eadv-generator)\<close>

definition generateEntityIds :: "nat \<Rightarrow> int \<Rightarrow> int list" where
  "generateEntityIds count startId = map (\<lambda>i. startId + int i) [0..<count]"

fun datesLoop ::
  "DateMethods \<Rightarrow> ResolvedMockerOptions \<Rightarrow> int \<Rightarrow> string \<Rightarrow> ValueGenerator \<Rightarrow> Date list \<Rightarrow> prng
   \<Rightarrow> (EadvRow list \<times> prng) outcome" where
  "datesLoop dm options e a valueGen [] random = Return ([], random)"
| "datesLoop dm options e a valueGen (date # dates) random =
     (let (v, calls) = valueGen random;
          random1 = sdrop calls random
      in andThen (formatDate dm date (dateFormat options)) (\<lambda>s.
         andThen (datesLoop dm options e a valueGen dates random1) (\<lambda>(rows, random').
         Return (\<lparr>eid = e, att = a, dt = s, val = v\<rparr> # rows, random'))))"

fun attributesLoop ::
  "DateMethods \<Rightarrow> ResolvedMockerOptions \<Rightarrow> int \<Rightarrow> string list \<Rightarrow> prng
   \<Rightarrow> (EadvRow list \<times> prng) outcome" where
  "attributesLoop dm options e [] random = Return ([], random)"
| "attributesLoop dm options e (a # as) random =
     (case generateDates (observationsPerEntity options) (dateRange_start options)
             (dateRange_end options) random (dateDistribution options) of
        None \<Rightarrow> NoReturn
      | Some (dates, random1) \<Rightarrow>
          (let valueGen = (case valueGenerators options a of
                             Some g \<Rightarrow> g | None \<Rightarrow> defaultValueGenerator options)
           in andThen (datesLoop dm options e a valueGen dates random1) (\<lambda>(rows1, random2).
              andThen (attributesLoop dm options e as random2) (\<lambda>(rows2, random3).
              Return (rows1 @ rows2, random3)))))"

fun entitiesLoop ::
  "DateMethods \<Rightarrow> ResolvedMockerOptions \<Rightarrow> int list \<Rightarrow> string list \<Rightarrow> prng
   \<Rightarrow> (EadvRow list \<times> prng) outcome" where
  "entitiesLoop dm options [] concreteAttributes random = Return ([], random)"
| "entitiesLoop dm options (e # es) concreteAttributes random =
     andThen (attributesLoop dm options e concreteAttributes random) (\<lambda>(rows1, random1).
     andThen (entitiesLoop dm options es concreteAttributes random1) (\<lambda>(rows2, random2).
     Return (rows1 @ rows2, random2)))"

definition generateEadvRows ::
  "DateMethods \<Rightarrow> string list \<Rightarrow> int list \<Rightarrow> ResolvedMockerOptions \<Rightarrow> prng
   \<Rightarrow> (EadvRow list \<times> prng) outcome" where
  "generateEadvRows dm attributes entities options random =
     (let (concreteAttributes, random1) = expandWildcardAttributes attributes random
      in entitiesLoop dm options entities concreteAttributes random1)"

subsection \<open>Rout tables (generators/rout-generator)\<close>

fun variablesLoop ::
  "ResolvedMockerOptions \<Rightarrow> string \<Rightarrow> string list \<Rightarrow> RoutRow \<Rightarrow> prng \<Rightarrow> RoutRow \<times> prng" where
  "variablesLoop options tableName [] row random = (row, random)"
| "variablesLoop options tableName (varName # vars) row random =
     (let customGen = (case bindTableValues options tableName of
                         None \<Rightarrow> None | Some gens \<Rightarrow> gens varName)
      in case customGen of
           Some g \<Rightarrow>
             (let (v, calls) = g random
              in variablesLoop options tableName vars (AList.update varName v row)
                   (sdrop calls random))
         | None \<Rightarrow>
             variablesLoop options tableName vars
               (AList.update varName (Num (if shd random > 0.5 then 1 else 0)) row)
               (stl random))"

fun routRowsLoop ::
  "ResolvedMockerOptions \<Rightarrow> string \<Rightarrow> string list \<Rightarrow> int list \<Rightarrow> prng
   \<Rightarrow> RoutRow list \<times> prng" where
  "routRowsLoop options tableName variables [] random = ([], random)"
| "routRowsLoop options tableName variables (e # es) random =
     (let (row, random1) =
            variablesLoop options tableName variables [(''eid'', Num (real_of_int e))] random;
          (rows, random2) = routRowsLoop options tableName variables es random1
      in (row # rows, random2))"

fun routTablesLoop ::
  "ResolvedMockerOptions \<Rightarrow> int list \<Rightarrow> (string \<times> string list) list
   \<Rightarrow> (string \<times> RoutRow list) list \<Rightarrow> prng \<Rightarrow> (string \<times> RoutRow list) list \<times> prng" where
  "routTablesLoop options entities [] result random = (result, random)"
| "routTablesLoop options entities ((tableName, variables) # deps) result random =
     (let (rows, random1) = routRowsLoop options tableName variables entities random
      in routTablesLoop options entities deps (AList.update tableName rows result) random1)"

definition generateRoutTables ::
  "(string \<times> string list) list \<Rightarrow> int list \<Rightarrow> ResolvedMockerOptions \<Rightarrow> prng
   \<Rightarrow> (string \<times> RoutRow list) list \<times> prng" where
  "generateRoutTables bindDeps entities options random =
     routTablesLoop options entities bindDeps [] random"

section \<open>The mocker\<close>

subsection \<open>Built-in default value generator (utils/random, generators/value-generators)\<close>

text \<open>\<open>Math.round\<close> rounds to the nearest integer, a half upwards.\<close>

definition randomFloat :: "prng \<Rightarrow> real \<Rightarrow> real \<Rightarrow> nat \<Rightarrow> real" where
  "randomFloat random lo hi decimals =
     (let value = shd random * (hi - lo) + lo;
          factor = 10 ^ decimals
      in real_of_int \<lfloor>value * factor + 1 / 2\<rfloor> / factor)"

definition builtinDefaultValueGenerator :: ValueGenerator where
  "builtinDefaultValueGenerator random = (Num (randomFloat random 0 100 1), 1)"

subsection \<open>resolveOptions\<close>

text \<open>
  The options as the caller gives them: every field may be absent.  A date of the range
  is a string or a \<open>Date\<close> (a valid one, given by its time value).
\<close>

record MockerOptions =
  entityCount_opt :: "nat option"
  entityIdStart_opt :: "int option"
  observationsPerEntity_opt :: "nat option"
  dateRange_opt :: "((string + int) \<times> (string + int)) option"
  dateFormat_opt :: "DateFormat option"
  dateDistribution_opt :: "DateDistribution option"
  valueGenerators_opt :: "(string \<rightharpoonup> ValueGenerator) option"
  defaultValueGenerator_opt :: "ValueGenerator option"
  includeMockBindTables_opt :: "bool option"
  bindTableValues_opt :: "(string \<rightharpoonup> (string \<rightharpoonup> ValueGenerator)) option"
  seed_opt :: "int option"

text \<open>The test \<open>x ? ... : ...\<close> on a date of the range: only the empty string is falsy.\<close>

definition truthy :: "string + int \<Rightarrow> bool" where
  "truthy input = (case input of Inl s \<Rightarrow> s \<noteq> [] | Inr date \<Rightarrow> True)"

definition orElse :: "'a option \<Rightarrow> 'a \<Rightarrow> 'a" where
  "orElse x d = (case x of None \<Rightarrow> d | Some v \<Rightarrow> v)"

text \<open>
  \<open>resolveOptions\<close> reads the clock twice: \<open>new Date()\<close> for the default date range
  (\<open>clockDate\<close>) and \<open>Date.now()\<close> for the default seed (\<open>clockSeed\<close>).
\<close>

definition resolveOptions ::
  "DateMethods \<Rightarrow> int \<Rightarrow> int \<Rightarrow> MockerOptions \<Rightarrow> ResolvedMockerOptions" where
  "resolveOptions dm clockDate clockSeed options =
     (let now = clockDate;
          oneYearAgo = now - 365 * 24 * 60 * 60 * 1000
      in \<lparr>entityCount = orElse (entityCount_opt options) 3,
          entityIdStart = orElse (entityIdStart_opt options) 1001,
          observationsPerEntity = orElse (observationsPerEntity_opt options) 3,
          dateRange_start =
            (case dateRange_opt options of
               Some (start, _) \<Rightarrow> if truthy start then parseDate dm start else oneYearAgo
             | None \<Rightarrow> oneYearAgo),
          dateRange_end =
            (case dateRange_opt options of
               Some (_, end') \<Rightarrow> if truthy end' then parseDate dm end' else now
             | None \<Rightarrow> now),
          dateFormat = orElse (dateFormat_opt options) iso_format,
          dateDistribution = orElse (dateDistribution_opt options) uniform,
          valueGenerators = orElse (valueGenerators_opt options) Map.empty,
          defaultValueGenerator =
            orElse (defaultValueGenerator_opt options) builtinDefaultValueGenerator,
          includeMockBindTables = orElse (includeMockBindTables_opt options) True,
          bindTableValues = orElse (bindTableValues_opt options) Map.empty,
          seed = orElse (seed_opt options) clockSeed\<rparr>)"

subsection \<open>generateMockDataFromParsed\<close>

record Metadata =
  entities :: "int list"
  attributes :: "string list"
  bindDependencyTables :: "string list"
  totalRows :: nat

record MockDataResult =
  eadv :: "EadvRow list"
  routTables :: "(string \<times> RoutRow list) list"
  metadata :: Metadata

definition generateMockDataFromParsed ::
  "DateMethods \<Rightarrow> int \<Rightarrow> int \<Rightarrow> ParsedRuleblock list \<Rightarrow> MockerOptions \<Rightarrow> MockDataResult outcome" where
  "generateMockDataFromParsed dm clockDate clockSeed parsed options =
     (let opts = resolveOptions dm clockDate clockSeed options;
          random = createSeededRandom (seed opts);
          deps = extractDependencies parsed;
          ids = generateEntityIds (entityCount opts) (entityIdStart opts)
      in andThen (generateEadvRows dm (eadvAttributes deps) ids opts random) (\<lambda>(rows, random1).
           (let tables = (if includeMockBindTables opts
                          then fst (generateRoutTables (bindDependencies deps) ids opts random1)
                          else [])
            in Return \<lparr>eadv = rows, routTables = tables,
                 metadata = \<lparr>entities = ids, attributes = eadvAttributes deps,
                              bindDependencyTables = map fst (bindDependencies deps),
                              totalRows = length rows\<rparr>\<rparr>)))"

section \<open>Properties of the row generators\<close>

subsection \<open>Number of EADV rows\<close>









subsection \<open>When generateEadvRows returns\<close>
















subsection \<open>Rows of the rout tables\<close>












subsection \<open>The flag includeMockBindTables\<close>

lemma datesLoop_includeMockBindTables:
  "datesLoop dm (options\<lparr>includeMockBindTables := b\<rparr>) e a valueGen dates random
     = datesLoop dm options e a valueGen dates random"
  by (induction dates arbitrary: random) (simp_all add: case_prod_beta Let_def)

lemma attributesLoop_includeMockBindTables:
  "attributesLoop dm (options\<lparr>includeMockBindTables := b\<rparr>) e as random
     = attributesLoop dm options e as random"
  by (induction as arbitrary: random)
     (simp_all add: datesLoop_includeMockBindTables split: option.splits)

lemma entitiesLoop_includeMockBindTables:
  "entitiesLoop dm (options\<lparr>includeMockBindTables := b\<rparr>) es as random
     = entitiesLoop dm options es as random"
  by (induction es arbitrary: random) (simp_all add: attributesLoop_includeMockBindTables)

lemma generateEadvRows_includeMockBindTables:
  "generateEadvRows dm as es (options\<lparr>includeMockBindTables := b\<rparr>) random
     = generateEadvRows dm as es options random"
  by (simp add: generateEadvRows_def entitiesLoop_includeMockBindTables)

lemma resolveOptions_includeMockBindTables:
  "resolveOptions dm clockDate clockSeed (options\<lparr>includeMockBindTables_opt := Some b\<rparr>)
     = (resolveOptions dm clockDate clockSeed options)\<lparr>includeMockBindTables := b\<rparr>"
  by (simp add: resolveOptions_def Let_def orElse_def)

text \<open>
  C10 (frame effect of disabling bind tables).  For every parsed input and every options
  object, the call with \<open>includeMockBindTables = false\<close> ends as the call with
  \<open>includeMockBindTables = true\<close> does, and when that one returns a result it returns
  the same result with \<open>routTables\<close> replaced by the empty record: the same EADV rows
  and the same metadata.
\<close>

theorem includeMockBindTables_frame:
  "generateMockDataFromParsed dm clockDate clockSeed parsed
       (options\<lparr>includeMockBindTables_opt := Some False\<rparr>)
     = (case generateMockDataFromParsed dm clockDate clockSeed parsed
               (options\<lparr>includeMockBindTables_opt := Some True\<rparr>) of
          Return result \<Rightarrow> Return (result\<lparr>routTables := []\<rparr>)
        | RangeError \<Rightarrow> RangeError
        | NoReturn \<Rightarrow> NoReturn)"
proof -
  define opts where "opts = resolveOptions dm clockDate clockSeed options"
  define rows where "rows = generateEadvRows dm (eadvAttributes (extractDependencies parsed))
      (generateEntityIds (entityCount opts) (entityIdStart opts)) opts
      (createSeededRandom (seed opts))"
  show ?thesis
    unfolding generateMockDataFromParsed_def resolveOptions_includeMockBindTables
      opts_def[symmetric]
    by (cases rows)
       (simp_all add: Let_def generateEadvRows_includeMockBindTables rows_def[symmetric]
          case_prod_beta)
qed

subsection \<open>Determinism\<close>





end
